theory Spec2Isabelle
  imports Complex_Main "HOL-Library.Multiset" "HOL-Library.Sublist"
begin

section \<open>JavaScript strings and arrays\<close>

text \<open>
  A JavaScript string is a sequence of UTF-16 code units. The model covers the strings
  whose code units are all below 256 (the Latin-1 range, which holds every string of the
  repository's data): such a string is a \<open>string\<close>, one \<open>char\<close> per code unit, and
  \<open>length\<close> is the \<open>.length\<close> of the source.
\<close>

definition toLowerChar :: "char \<Rightarrow> char" where
  \<comment> \<open>\<open>String.prototype.toLowerCase\<close> on one code unit below 256: A-Z, and the
      upper-case letters U+00C0..U+00DE except the multiplication sign U+00D7.\<close>
  "toLowerChar c =
     (let n = (of_char c :: nat)
      in if (65 \<le> n \<and> n \<le> 90) \<or> (192 \<le> n \<and> n \<le> 222 \<and> n \<noteq> 215)
         then char_of (n + 32) else c)"

definition toLowerCase :: "string \<Rightarrow> string" where
  "toLowerCase s = map toLowerChar s"

definition isWhiteSpace :: "char \<Rightarrow> bool" where
  \<comment> \<open>The code units below 256 that \<open>String.prototype.trim\<close> strips: TAB, LF, VT, FF,
      CR, SPACE and NO-BREAK SPACE.\<close>
  "isWhiteSpace c = ((of_char c :: nat) \<in> {9, 10, 11, 12, 13, 32, 160})"

definition trim :: "string \<Rightarrow> string" where
  "trim s = rev (dropWhile isWhiteSpace (rev (dropWhile isWhiteSpace s)))"

fun startsWith :: "string \<Rightarrow> string \<Rightarrow> bool" where
  "startsWith s [] = True"
| "startsWith [] (c # t) = False"
| "startsWith (d # s) (c # t) = (d = c \<and> startsWith s t)"

fun includesStr :: "string \<Rightarrow> string \<Rightarrow> bool" where
  \<comment> \<open>\<open>s.includes(t)\<close>: \<open>t\<close> occurs in \<open>s\<close> as a contiguous substring.\<close>
  "includesStr [] t = (t = [])"
| "includesStr (d # s) t = (startsWith (d # s) t \<or> includesStr s t)"

fun some :: "('a \<Rightarrow> bool) \<Rightarrow> 'a list \<Rightarrow> bool" where
  \<comment> \<open>\<open>Array.prototype.some\<close>\<close>
  "some p [] = False"
| "some p (x # xs) = (p x \<or> some p xs)"

fun insertSorted :: "('a \<Rightarrow> 'a \<Rightarrow> int) \<Rightarrow> 'a \<Rightarrow> 'a list \<Rightarrow> 'a list" where
  "insertSorted cmp x [] = [x]"
| "insertSorted cmp x (y # ys) =
     (if cmp x y \<le> 0 then x # y # ys else y # insertSorted cmp x ys)"

definition sortArray :: "('a \<Rightarrow> 'a \<Rightarrow> int) \<Rightarrow> 'a list \<Rightarrow> 'a list" where
  \<comment> \<open>\<open>Array.prototype.sort(cmp)\<close>, which is stable (ECMAScript 2019): an element
      stays in front of the later elements it compares equal to.\<close>
  "sortArray cmp xs = foldr (insertSorted cmp) xs []"

section \<open>Experiment records and the application state\<close>

record Experiment =
  expId :: string
  title :: string
  summary :: string
  organism :: string
  mission :: string
  expKeywords :: "string list"
  publicationCount :: "int option"

text \<open>
  \<open>filteredAndSortedExperiments\<close> of \<open>App.js\<close>, stage by stage. The emptiness test
  trims the search trm; the trm that is matched is the untrimmed trm in lower case.
\<close>

definition matchesSearch :: "string \<Rightarrow> Experiment \<Rightarrow> bool" where
  "matchesSearch trm ex =
     (includesStr (toLowerCase (title ex)) trm \<or>
      includesStr (toLowerCase (organism ex)) trm \<or>
      includesStr (toLowerCase (summary ex)) trm \<or>
      includesStr (toLowerCase (mission ex)) trm \<or>
      some (\<lambda>keyword. includesStr (toLowerCase keyword) trm) (expKeywords ex))"

definition searchFilter :: "string \<Rightarrow> Experiment list \<Rightarrow> Experiment list" where
  "searchFilter searchTerm filtered =
     (if trim searchTerm \<noteq> []
      then filter (matchesSearch (toLowerCase searchTerm)) filtered
      else filtered)"

definition matchesCategory :: "string \<Rightarrow> Experiment \<Rightarrow> bool" where
  "matchesCategory filterBy ex =
     (if filterBy = ''plants'' then
        includesStr (toLowerCase (organism ex)) ''arabidopsis'' \<or>
        some (\<lambda>k. includesStr (toLowerCase k) ''plant'') (expKeywords ex)
      else if filterBy = ''animals'' then
        includesStr (toLowerCase (organism ex)) ''mus'' \<or>
        includesStr (toLowerCase (organism ex)) ''rattus'' \<or>
        includesStr (toLowerCase (organism ex)) ''homo sapiens''
      else if filterBy = ''microgravity'' then
        some (\<lambda>k. includesStr (toLowerCase k) ''microgravity'') (expKeywords ex)
      else if filterBy = ''gene-expression'' then
        some (\<lambda>k. includesStr (toLowerCase k) ''gene'') (expKeywords ex)
      else True)"

definition categoryFilter :: "string \<Rightarrow> Experiment list \<Rightarrow> Experiment list" where
  "categoryFilter filterBy filtered =
     (if filterBy \<noteq> ''all'' then filter (matchesCategory filterBy) filtered else filtered)"

definition orZero :: "int option \<Rightarrow> int" where
  \<comment> \<open>\<open>exp.publicationCount || 0\<close>\<close>
  "orZero n = (case n of None \<Rightarrow> 0 | Some k \<Rightarrow> k)"

definition compareBy ::
  "(string \<Rightarrow> string \<Rightarrow> int) \<Rightarrow> string \<Rightarrow> Experiment \<Rightarrow> Experiment \<Rightarrow> int" where
  \<comment> \<open>The comparator of the sort; \<open>localeCompare\<close> is the host's string collation.\<close>
  "compareBy localeCompare sortBy a b =
     (if sortBy = ''title'' then localeCompare (title a) (title b)
      else if sortBy = ''organism'' then localeCompare (organism a) (organism b)
      else if sortBy = ''mission'' then localeCompare (mission a) (mission b)
      else if sortBy = ''publications'' then
        orZero (publicationCount b) - orZero (publicationCount a)
      else 0)"

definition filteredAndSortedExperiments ::
  "(string \<Rightarrow> string \<Rightarrow> int) \<Rightarrow> Experiment list \<Rightarrow> string \<Rightarrow> string \<Rightarrow> string
     \<Rightarrow> Experiment list" where
  "filteredAndSortedExperiments localeCompare allExperiments searchTerm filterBy sortBy =
     sortArray (compareBy localeCompare sortBy)
       (categoryFilter filterBy (searchFilter searchTerm allExperiments))"

text \<open>
  The four records \<open>loadExperiments\<close> falls back to when the request for the
  experiments fails.
\<close>

definition glds21 :: Experiment where
  "glds21 = \<lparr> expId = ''GLDS-21'',
     title = ''Spaceflight Effects on Arabidopsis Gene Expression'',
     summary = ''Investigation of how microgravity affects plant gene expression patterns in Arabidopsis thaliana.'',
     organism = ''Arabidopsis thaliana'',
     mission = ''STS-131'',
     expKeywords = [''microgravity'', ''gene expression'', ''plants'', ''spaceflight''],
     publicationCount = Some 12 \<rparr>"

definition glds47 :: Experiment where
  "glds47 = \<lparr> expId = ''GLDS-47'',
     title = ''Muscle Atrophy in Microgravity'',
     summary = ''Study of muscle protein degradation pathways in mouse models under simulated microgravity conditions.'',
     organism = ''Mus musculus'',
     mission = ''Rodent Research-1'',
     expKeywords = [''muscle atrophy'', ''microgravity'', ''protein degradation'', ''mice''],
     publicationCount = Some 8 \<rparr>"

definition glds104 :: Experiment where
  "glds104 = \<lparr> expId = ''GLDS-104'',
     title = ''Cardiac Function in Space'',
     summary = ''Analysis of cardiovascular adaptations and cardiac muscle changes during long-duration spaceflight.'',
     organism = ''Homo sapiens'',
     mission = ''ISS Expedition 42'',
     expKeywords = [''cardiac'', ''cardiovascular'', ''spaceflight'', ''adaptation''],
     publicationCount = Some 15 \<rparr>"

definition glds78 :: Experiment where
  "glds78 = \<lparr> expId = ''GLDS-78'',
     title = ''Bone Density Loss Studies'',
     summary = ''Investigation of bone mineral density changes and osteoblast activity in microgravity environments.'',
     organism = ''Rattus norvegicus'',
     mission = ''SpaceX CRS-12'',
     expKeywords = [''bone density'', ''osteoblast'', ''calcium'', ''microgravity''],
     publicationCount = Some 6 \<rparr>"

definition mockExperiments :: "Experiment list" where
  "mockExperiments = [glds21, glds47, glds104, glds78]"

text \<open>
  The state of \<open>App\<close> that searching reads and writes. \<open>searchTimeout\<close> is the trm
  of the pending debounce timer, if one is pending; \<open>requests\<close> logs the terms for which
  \<open>GET /api/search\<close> has been issued; a toast is its message and its type.
\<close>

record AppState =
  allExperiments :: "Experiment list"
  searchTerm :: string
  filterBy :: string
  sortBy :: string
  isSearching :: bool
  searchTimeout :: "string option"
  requests :: "string list"
  toasts :: "(string \<times> string) list"

datatype SearchResponse =
  Failed
    \<comment> \<open>the request threw, the status was not ok, or the body was not JSON\<close>
| Succeeded bool string
    \<comment> \<open>\<open>data.isRealData === false\<close>, and \<open>data.dataSource\<close> as the toast prints it\<close>

definition addToast :: "string \<Rightarrow> string \<Rightarrow> AppState \<Rightarrow> AppState" where
  "addToast message type st = st\<lparr>toasts := toasts st @ [(message, type)]\<rparr>"

definition performSearch :: "string \<Rightarrow> SearchResponse \<Rightarrow> AppState \<Rightarrow> AppState" where
  \<comment> \<open>The second argument is what the backend answers if it is asked.\<close>
  "performSearch trm response st =
     (if trim trm = [] then st\<lparr>isSearching := False\<rparr>
      else
        let st1 = st\<lparr>requests := requests st @ [trm]\<rparr>;
            st2 = (case response of
                     Succeeded notReal dataSource \<Rightarrow>
                       if notReal then addToast (''Search results from '' @ dataSource) ''warning'' st1
                       else st1
                   | Failed \<Rightarrow> addToast ''Search failed - using local data'' ''error'' st1)
        in st2\<lparr>isSearching := False\<rparr>)"

definition debouncedSearchEffect :: "AppState \<Rightarrow> AppState" where
  \<comment> \<open>The effect run when \<open>searchTerm\<close> changes: the pending timer is cleared; a trm
      that trims to nothing schedules nothing, any other trm schedules
      \<open>performSearch\<close> 300 ms later.\<close>
  "debouncedSearchEffect st =
     (let st1 = st\<lparr>searchTimeout := None\<rparr>
      in if trim (searchTerm st) = [] then st1\<lparr>isSearching := False\<rparr>
         else st1\<lparr>isSearching := True, searchTimeout := Some (searchTerm st)\<rparr>)"

definition handleSearchChange :: "string \<Rightarrow> AppState \<Rightarrow> AppState" where
  "handleSearchChange trm st = st\<lparr>searchTerm := trm\<rparr>"

definition visibleExperiments :: "(string \<Rightarrow> string \<Rightarrow> int) \<Rightarrow> AppState \<Rightarrow> Experiment list" where
  \<comment> \<open>The memoised list the page renders.\<close>
  "visibleExperiments localeCompare st =
     filteredAndSortedExperiments localeCompare
       (allExperiments st) (searchTerm st) (filterBy st) (sortBy st)"

definition initialState :: AppState where
  \<comment> \<open>The initial values of the \<open>useState\<close> calls.\<close>
  "initialState = \<lparr> allExperiments = [], searchTerm = [], filterBy = ''all'',
     sortBy = ''relevance'', isSearching = False, searchTimeout = None, requests = [],
     toasts = [] \<rparr>"

definition mockState :: AppState where
  \<comment> \<open>A state for the examples: the initial one, holding the mock records.\<close>
  "mockState = initialState\<lparr>allExperiments := mockExperiments\<rparr>"

subsection \<open>Related experiments\<close>

record RelatedEvent =
  query :: string
  excludeId :: string

definition firstPart :: "string \<Rightarrow> string" where
  \<comment> \<open>\<open>organism.split(' ')[0]\<close>\<close>
  "firstPart s = takeWhile (\<lambda>c. c \<noteq> CHR '' '') s"

definition relatedSearchEvent :: "Experiment \<Rightarrow> RelatedEvent" where
  \<comment> \<open>The event the "Related Experiments" button of \<open>ExperimentModal\<close> dispatches.\<close>
  "relatedSearchEvent experiment =
     \<lparr> query = (case expKeywords experiment of
                   k # ks \<Rightarrow> k
                 | [] \<Rightarrow> firstPart (organism experiment)),
       excludeId = expId experiment \<rparr>"

definition handleRelatedExperimentsSearch :: "RelatedEvent \<Rightarrow> AppState \<Rightarrow> AppState" where
  \<comment> \<open>The listener of \<open>App\<close> reads \<open>query\<close> from the event's detail, nothing else.\<close>
  "handleRelatedExperimentsSearch event st =
     addToast (''Searching for experiments related to: '' @ query event) ''info''
       (st\<lparr>searchTerm := query event\<rparr>)"

definition relatedExperiments ::
  "(string \<Rightarrow> string \<Rightarrow> int) \<Rightarrow> AppState \<Rightarrow> Experiment \<Rightarrow> Experiment list" where
  \<comment> \<open>What the page lists once the button has been pressed on \<open>experiment\<close>.\<close>
  "relatedExperiments localeCompare st experiment =
     visibleExperiments localeCompare
       (handleRelatedExperimentsSearch (relatedSearchEvent experiment) st)"

subsection \<open>The arrays of the memo in a store\<close>

text \<open>
  \<open>Array.prototype.sort\<close> sorts in place, and \<open>filtered\<close> starts as an alias of
  \<open>allExperiments\<close>. To see what is written where, the arrays live in a store: an
  address is an index into it, \<open>filter\<close> and the spread \<open>[...filtered]\<close> allocate a
  new array, \<open>sort\<close> overwrites the array at the address it is called on. The records
  themselves are never assigned to, so an array holds them as values.
\<close>

type_synonym addr = nat
type_synonym store = "Experiment list list"

definition alloc :: "store \<Rightarrow> Experiment list \<Rightarrow> addr \<times> store" where
  "alloc h xs = (length h, h @ [xs])"

definition sortInPlace :: "(Experiment \<Rightarrow> Experiment \<Rightarrow> int) \<Rightarrow> addr \<Rightarrow> store \<Rightarrow> store" where
  "sortInPlace cmp a h = h[a := sortArray cmp (h ! a)]"

definition filteredAndSortedExperiments_store ::
  "(string \<Rightarrow> string \<Rightarrow> int) \<Rightarrow> store \<Rightarrow> addr \<Rightarrow> string \<Rightarrow> string \<Rightarrow> string
     \<Rightarrow> addr \<times> store" where
  \<comment> \<open>\<open>coll\<close> is the address of \<open>allExperiments\<close>; the result is the
      address of \<open>sorted\<close> and the store the memo leaves.\<close>
  "filteredAndSortedExperiments_store localeCompare h coll srch fltr srt =
     (let (filtered1, h1) =
            (if trim srch \<noteq> []
             then alloc h (filter (matchesSearch (toLowerCase srch)) (h ! coll))
             else (coll, h));
          (filtered2, h2) =
            (if fltr \<noteq> ''all''
             then alloc h1 (filter (matchesCategory fltr) (h1 ! filtered1))
             else (filtered1, h1));
          (sorted, h3) = alloc h2 (h2 ! filtered2)
      in (sorted, sortInPlace (compareBy localeCompare srt) sorted h3))"

section \<open>The knowledge-graph payload\<close>

datatype json = JString string | JArray "json list" | JObject "(string \<times> json) list"

definition fieldNames :: "json \<Rightarrow> string list" where
  "fieldNames j = (case j of JObject kvs \<Rightarrow> map fst kvs | _ \<Rightarrow> [])"

definition field :: "string \<Rightarrow> json \<Rightarrow> json option" where
  "field k j = (case j of JObject kvs \<Rightarrow> map_of kvs k | _ \<Rightarrow> None)"

definition elements :: "string \<Rightarrow> json \<Rightarrow> json list" where
  \<comment> \<open>\<open>data.nodes\<close> and \<open>data.edges\<close>\<close>
  "elements k j = (case field k j of Some (JArray xs) \<Rightarrow> xs | _ \<Rightarrow> [])"

definition mockNode :: "string \<Rightarrow> string \<Rightarrow> string \<Rightarrow> json" where
  "mockNode i l t =
     JObject [(''data'', JObject [(''id'', JString i), (''label'', JString l), (''type'', JString t)])]"

definition mockEdge :: "string \<Rightarrow> string \<Rightarrow> string \<Rightarrow> json" where
  "mockEdge s t l =
     JObject [(''data'', JObject [(''source'', JString s), (''target'', JString t), (''label'', JString l)])]"

definition mockGraphData :: json where
  "mockGraphData = JObject
     [(''nodes'', JArray
        [mockNode ''microgravity'' ''Microgravity'' ''condition'',
         mockNode ''gene-expression'' ''Gene Expression'' ''process'',
         mockNode ''muscle-atrophy'' ''Muscle Atrophy'' ''outcome'',
         mockNode ''arabidopsis'' ''Arabidopsis'' ''organism'',
         mockNode ''mouse'' ''Mouse'' ''organism'']),
      (''edges'', JArray
        [mockEdge ''microgravity'' ''gene-expression'' ''affects'',
         mockEdge ''microgravity'' ''muscle-atrophy'' ''causes'',
         mockEdge ''gene-expression'' ''arabidopsis'' ''studied in'',
         mockEdge ''muscle-atrophy'' ''mouse'' ''observed in''])]"

definition loadGraphData :: "json option \<Rightarrow> json" where
  \<comment> \<open>The argument is the body of the answer to \<open>GET /api/knowledge-graph\<close>, or
      \<open>None\<close> when the request threw, the status was not ok or the body was not JSON.
      The result is the value given to \<open>setGraphData\<close>.\<close>
  "loadGraphData response = (case response of Some data \<Rightarrow> data | None \<Rightarrow> mockGraphData)"

definition wrapsFields :: "string list \<Rightarrow> json \<Rightarrow> bool" where
  \<comment> \<open>An object whose only field is \<open>data\<close>, itself an object with exactly the
      fields \<open>names\<close>.\<close>
  "wrapsFields names j =
     (fieldNames j = [''data''] \<and>
      (case field ''data'' j of Some d \<Rightarrow> fieldNames d = names | None \<Rightarrow> False))"

section \<open>The suggestions of the search bar\<close>

definition quickSearches :: "string list" where
  "quickSearches =
     [''microgravity'', ''gene expression'', ''muscle atrophy'', ''arabidopsis'',
      ''cardiac function'', ''bone density'', ''spaceflight'', ''ISS'']"

definition suggestions :: "string \<Rightarrow> string list" where
  \<comment> \<open>The value the effect of \<open>SearchBar\<close> gives to \<open>setSuggestions\<close>.\<close>
  "suggestions srch =
     (if length srch > 1
      then take 4 (filter (\<lambda>trm. includesStr (toLowerCase trm) (toLowerCase srch) \<and>
                                 toLowerCase trm \<noteq> toLowerCase srch) quickSearches)
      else [])"

section \<open>The ranking contract, in the specification's words\<close>

text \<open>
  The specification ranks by a score that adds three signals. Lexical containment is
  the fraction of the query's tokens that occur, in lower case, in the title, the
  organism, the mission or a keyword; keyword salience and embedding similarity come
  from the index, so they are arguments here. None of this is code of the client: the
  definitions exist to compare \<open>filteredAndSortedExperiments\<close> with the contract.
\<close>

fun splitTokens :: "string \<Rightarrow> string \<Rightarrow> string list" where
  "splitTokens acc [] = (if acc = [] then [] else [rev acc])"
| "splitTokens acc (c # cs) =
     (if isWhiteSpace c
      then (if acc = [] then splitTokens [] cs else rev acc # splitTokens [] cs)
      else splitTokens (c # acc) cs)"

definition spec_tokens :: "string \<Rightarrow> string list" where
  "spec_tokens q = splitTokens [] (toLowerCase q)"

definition spec_tokenOccurs :: "Experiment \<Rightarrow> string \<Rightarrow> bool" where
  "spec_tokenOccurs ex t =
     some (\<lambda>f. includesStr (toLowerCase f) t)
       (title ex # organism ex # mission ex # expKeywords ex)"

definition spec_lexicalContainment :: "string \<Rightarrow> Experiment \<Rightarrow> rat" where
  "spec_lexicalContainment q ex =
     (let ts = spec_tokens q
      in if ts = [] then 0
         else of_nat (length (filter (spec_tokenOccurs ex) ts)) / of_nat (length ts))"

definition spec_relevanceScore ::
  "(string \<Rightarrow> Experiment \<Rightarrow> rat) \<Rightarrow> (string \<Rightarrow> Experiment \<Rightarrow> rat) \<Rightarrow> string \<Rightarrow> Experiment \<Rightarrow> rat" where
  "spec_relevanceScore keywordSalience embeddingSimilarity q ex =
     spec_lexicalContainment q ex + keywordSalience q ex + embeddingSimilarity q ex"

definition spec_rankedByScore :: "(Experiment \<Rightarrow> rat) \<Rightarrow> Experiment list \<Rightarrow> bool" where
  \<comment> \<open>Descending score: no record stands before one that scores higher.\<close>
  "spec_rankedByScore score res = sorted_wrt (\<lambda>a b. score b \<le> score a) res"

text \<open>The two records of the specification's end-to-end scenario.\<close>

definition recordA :: Experiment where
  "recordA = \<lparr> expId = ''A'', title = [], summary = [],
     organism = ''Arabidopsis thaliana'', mission = [],
     expKeywords = [''microgravity'', ''gene expression''], publicationCount = None \<rparr>"

definition recordB :: Experiment where
  "recordB = \<lparr> expId = ''B'', title = [], summary = [],
     organism = ''Mus musculus'', mission = [],
     expKeywords = [''microgravity'', ''muscle atrophy''], publicationCount = None \<rparr>"

definition nearerB :: "string \<Rightarrow> Experiment \<Rightarrow> rat" where
  \<comment> \<open>An index whose embeddings put record B nearer to every query than the others.\<close>
  "nearerB q ex = (if expId ex = ''B'' then 1 / 2 else 1 / 4)"

section \<open>The knowledge-graph builder\<close>

text \<open>
  Modelled from the spec: the builder is backend code (\<open>ai/knowledge_graph.py\<close>), and
  what follows is section 4.5 of the specification. A graph maps each node to its usage
  counter and each edge to its provenance (a set of experiment ids) and its weight.
\<close>

datatype EntityType = Organism | Mission | Condition | Process | Outcome

type_synonym NormalizedEntity = "EntityType \<times> string"

type_synonym Relation = "NormalizedEntity \<times> NormalizedEntity \<times> string"

record KnowledgeGraph =
  nodes :: "NormalizedEntity \<rightharpoonup> nat"
  edges :: "Relation \<rightharpoonup> string set \<times> nat"

definition emptyGraph :: KnowledgeGraph where
  \<comment> \<open>Modelled from the spec: the graph before any record is merged.\<close>
  "emptyGraph = \<lparr> nodes = Map.empty, edges = Map.empty \<rparr>"

definition mergeEntity :: "NormalizedEntity \<Rightarrow> (NormalizedEntity \<rightharpoonup> nat) \<Rightarrow> (NormalizedEntity \<rightharpoonup> nat)" where
  \<comment> \<open>Modelled from the spec: the union of entities by identity (type, label), where
      merging increments the usage counter.\<close>
  "mergeEntity e m = m(e \<mapsto> (case m e of None \<Rightarrow> 1 | Some n \<Rightarrow> Suc n))"

definition mergeRelation ::
  "string \<Rightarrow> Relation \<Rightarrow> (Relation \<rightharpoonup> string set \<times> nat) \<Rightarrow> (Relation \<rightharpoonup> string set \<times> nat)" where
  \<comment> \<open>Modelled from the spec: the union of relations by (source, target, label), where
      merging adds the experiment id to the provenance and increments the edge weight.\<close>
  "mergeRelation i r m =
     m(r \<mapsto> (case m r of None \<Rightarrow> ({i}, 1) | Some (prov, w) \<Rightarrow> (insert i prov, Suc w)))"

definition addRecord ::
  "(Experiment \<Rightarrow> NormalizedEntity list) \<Rightarrow> (Experiment \<Rightarrow> Relation list) \<Rightarrow> Experiment
     \<Rightarrow> KnowledgeGraph \<Rightarrow> KnowledgeGraph" where
  \<comment> \<open>Modelled from the spec: one record's step of the builder. \<open>entitiesOf\<close> and
      \<open>relationsOf\<close> are the per-record normalizer and extractor (sections 4.1 and 4.3,
      which rest on model inference); what they return counts as a set.\<close>
  "addRecord entitiesOf relationsOf r g =
     \<lparr> nodes = fold mergeEntity (remdups (entitiesOf r)) (nodes g),
       edges = fold (mergeRelation (expId r)) (remdups (relationsOf r)) (edges g) \<rparr>"

definition wellFormed :: "Experiment \<Rightarrow> bool" where
  \<comment> \<open>Modelled from the spec: a record missing its id or its title is rejected.\<close>
  "wellFormed r = (expId r \<noteq> [] \<and> title r \<noteq> [])"

definition build ::
  "(Experiment \<Rightarrow> NormalizedEntity list) \<Rightarrow> (Experiment \<Rightarrow> Relation list) \<Rightarrow> Experiment list
     \<Rightarrow> KnowledgeGraph option" where
  \<comment> \<open>Modelled from the spec: \<open>build(records)\<close> of section 4.5, the records taken in
      the order given; \<open>None\<close> is BuildFailed, for a collection that is empty or all
      malformed (section 7).\<close>
  "build entitiesOf relationsOf records =
     (let ok = filter wellFormed records
      in if ok = [] then None
         else Some (fold (addRecord entitiesOf relationsOf) ok emptyGraph))"

definition conditionsOf :: "Experiment \<Rightarrow> NormalizedEntity list" where
  \<comment> \<open>A normalizer for examples: the organism, and the keyword microgravity as a
      condition.\<close>
  "conditionsOf r =
     (Organism, toLowerCase (organism r)) #
     map (\<lambda>k. (Condition, k)) (filter (\<lambda>k. k = ''microgravity'') (expKeywords r))"

definition affectsOf :: "Experiment \<Rightarrow> Relation list" where
  \<comment> \<open>An extractor for examples: microgravity affects what the organism is.\<close>
  "affectsOf r =
     map (\<lambda>k. ((Condition, k), (Organism, toLowerCase (organism r)), ''affects''))
       (filter (\<lambda>k. k = ''microgravity'') (expKeywords r))"

section \<open>Inputs for the examples\<close>

fun codeUnitCompare :: "string \<Rightarrow> string \<Rightarrow> int" where
  \<comment> \<open>A collation to run the examples with: by code unit, the shorter string first.\<close>
  "codeUnitCompare [] [] = 0"
| "codeUnitCompare [] (b # bs) = - 1"
| "codeUnitCompare (a # as) [] = 1"
| "codeUnitCompare (a # as) (b # bs) =
     (if (of_char a :: nat) < of_char b then - 1
      else if (of_char b :: nat) < of_char a then 1
      else codeUnitCompare as bs)"

definition noSalience :: "string \<Rightarrow> Experiment \<Rightarrow> rat" where
  \<comment> \<open>An index in which no keyword of a record is salient for the query.\<close>
  "noSalience q ex = 0"

definition noSimilarity :: "string \<Rightarrow> Experiment \<Rightarrow> rat" where
  \<comment> \<open>An index whose embeddings are orthogonal to the query's.\<close>
  "noSimilarity q ex = 0"

definition withoutId :: "string \<Rightarrow> Experiment list \<Rightarrow> Experiment list" where
  \<comment> \<open>The records of a list other than the one with the given id, in their order.\<close>
  "withoutId i xs = filter (\<lambda>x. expId x \<noteq> i) xs"

definition plainRecord :: Experiment where
  \<comment> \<open>A record with no white space in any field.\<close>
  "plainRecord = \<lparr> expId = ''X-1'', title = ''Yeast'', summary = [], organism = [],
     mission = [], expKeywords = [], publicationCount = None \<rparr>"

section \<open>Strings, sorting and the stages of the memo\<close>

lemma startsWith_iff: "startsWith s t \<longleftrightarrow> (\<exists>v. s = t @ v)"
  by (induction s t rule: startsWith.induct) auto

lemma includesStr_iff: "includesStr s t \<longleftrightarrow> (\<exists>u v. s = u @ t @ v)"
proof (induction s)
  case Nil
  then show ?case by simp
next
  case (Cons d s)
  show ?case
  proof
    assume "includesStr (d # s) t"
    then consider "startsWith (d # s) t" | "includesStr s t" by auto
    then show "\<exists>u v. d # s = u @ t @ v"
    proof cases
      case 1
      then obtain v where "d # s = t @ v" using startsWith_iff by blast
      then have "d # s = [] @ t @ v" by simp
      then show ?thesis by blast
    next
      case 2
      then obtain u v where "s = u @ t @ v" using Cons.IH by blast
      then have "d # s = (d # u) @ t @ v" by simp
      then show ?thesis by blast
    qed
  next
    assume "\<exists>u v. d # s = u @ t @ v"
    then obtain u v where uv: "d # s = u @ t @ v" by blast
    show "includesStr (d # s) t"
    proof (cases u)
      case Nil
      with uv have "startsWith (d # s) t" using startsWith_iff by auto
      then show ?thesis by simp
    next
      case (Cons c u')
      with uv have "s = u' @ t @ v" by simp
      then have "includesStr s t" using Cons.IH by blast
      then show ?thesis by simp
    qed
  qed
qed

lemma some_iff: "some p xs \<longleftrightarrow> (\<exists>x \<in> set xs. p x)"
  by (induction xs) auto

lemma trim_Nil: "trim [] = []"
  by (simp add: trim_def)

lemma trim_blank: "list_all isWhiteSpace s \<Longrightarrow> trim s = []"
proof -
  assume "list_all isWhiteSpace s"
  then have h: "dropWhile isWhiteSpace s = []" by (simp add: list_all_iff)
  show ?thesis unfolding trim_def h by simp
qed

text \<open>A comparator that always answers 0 leaves a stable sort nothing to move.\<close>

lemma insertSorted_zero: "cmp = (\<lambda>a b. 0) \<Longrightarrow> insertSorted cmp x ys = x # ys"
  by (cases ys) simp_all

lemma sortArray_zero: "sortArray (\<lambda>a b. 0) xs = xs"
  by (induction xs) (simp_all add: sortArray_def insertSorted_zero)

lemma compareBy_relevance: "compareBy lc ''relevance'' = (\<lambda>a b. 0)"
  by (simp add: compareBy_def fun_eq_iff)

lemma set_insertSorted: "set (insertSorted cmp x ys) = insert x (set ys)"
  by (induction ys) auto

lemma set_sortArray: "set (sortArray cmp xs) = set xs"
  by (induction xs) (simp_all add: sortArray_def set_insertSorted)

text \<open>With a comparator that is a total preorder, the sort sorts.\<close>

lemma sorted_insertSorted:
  assumes tr: "\<And>a b c. cmp a b \<le> 0 \<Longrightarrow> cmp b c \<le> 0 \<Longrightarrow> cmp a c \<le> 0"
    and tot: "\<And>a b. cmp a b \<le> 0 \<or> cmp b a \<le> 0"
    and "sorted_wrt (\<lambda>a b. cmp a b \<le> 0) ys"
  shows "sorted_wrt (\<lambda>a b. cmp a b \<le> 0) (insertSorted cmp x ys)"
  using assms(3)
proof (induction ys)
  case Nil
  show ?case by simp
next
  case (Cons y ys)
  show ?case
  proof (cases "cmp x y \<le> 0")
    case True
    then have "\<forall>z \<in> set ys. cmp x z \<le> 0" using Cons.prems tr by auto
    with True Cons.prems show ?thesis by simp
  next
    case False
    then have "cmp y x \<le> 0" using tot by blast
    with False Cons show ?thesis by (auto simp: set_insertSorted)
  qed
qed

lemma sorted_sortArray:
  assumes "\<And>a b c. cmp a b \<le> 0 \<Longrightarrow> cmp b c \<le> 0 \<Longrightarrow> cmp a c \<le> 0"
    and "\<And>a b. cmp a b \<le> 0 \<or> cmp b a \<le> 0"
  shows "sorted_wrt (\<lambda>a b. cmp a b \<le> 0) (sortArray cmp xs)"
proof (induction xs)
  case Nil
  show ?case by (simp add: sortArray_def)
next
  case (Cons x xs)
  have "sortArray cmp (x # xs) = insertSorted cmp x (sortArray cmp xs)"
    by (simp add: sortArray_def)
  with Cons show ?case using sorted_insertSorted [OF assms] by simp
qed

lemma publications_sorted:
  "sorted_wrt (\<lambda>a b. orZero (publicationCount b) \<le> orZero (publicationCount a))
     (filteredAndSortedExperiments lc exps q f ''publications'')"
proof -
  have c: "compareBy lc ''publications'' =
      (\<lambda>a b. orZero (publicationCount b) - orZero (publicationCount a))"
    by (simp add: compareBy_def fun_eq_iff)
  have "sorted_wrt (\<lambda>a b. compareBy lc ''publications'' a b \<le> 0)
     (sortArray (compareBy lc ''publications'') (categoryFilter f (searchFilter q exps)))"
    by (rule sorted_sortArray) (auto simp: c)
  then show ?thesis by (simp add: filteredAndSortedExperiments_def c)
qed

lemma mset_insertSorted: "mset (insertSorted cmp x ys) = add_mset x (mset ys)"
  by (induction ys) auto

lemma mset_sortArray: "mset (sortArray cmp xs) = mset xs"
  by (induction xs) (simp_all add: sortArray_def mset_insertSorted)

lemma set_categoryFilter: "set (categoryFilter f xs) \<subseteq> set xs"
  by (auto simp: categoryFilter_def)

lemma subseq_categoryFilter: "subseq (categoryFilter f xs) xs"
  by (simp add: categoryFilter_def)

lemma set_filteredAndSorted:
  "set (filteredAndSortedExperiments lc exps q f s) =
   set (categoryFilter f (searchFilter q exps))"
  by (simp add: filteredAndSortedExperiments_def set_sortArray)

section \<open>The empty query\<close>

text \<open>
  Claim C1: for every record collection, searching with the empty query returns the
  records in their original insertion order, with no scoring: the search stage hands
  the collection on as it is without testing any record, so with the filter \<open>all\<close>
  and the sort \<open>relevance\<close> the memo returns the collection itself, and with any other
  filter and sort it returns what these two make of the whole collection. No search
  request is issued and no debounce timer is started.
\<close>

theorem empty_query_keeps_order:
  "searchFilter [] exps = exps \<and>
   filteredAndSortedExperiments lc exps [] ''all'' ''relevance'' = exps \<and>
   filteredAndSortedExperiments lc exps [] f s = sortArray (compareBy lc s) (categoryFilter f exps) \<and>
   requests (performSearch [] r st) = requests st \<and>
   searchTimeout (debouncedSearchEffect (st\<lparr>searchTerm := []\<rparr>)) = None"
  by (simp add: searchFilter_def trim_Nil filteredAndSortedExperiments_def categoryFilter_def
      compareBy_relevance sortArray_zero performSearch_def debouncedSearchEffect_def)

theorem empty_query_keeps_order_witness:
  "filteredAndSortedExperiments codeUnitCompare mockExperiments [] ''all'' ''relevance''
     = mockExperiments \<and>
   requests (performSearch [] Failed mockState) = requests mockState"
  using empty_query_keeps_order
    [of mockExperiments codeUnitCompare "''all''" "''relevance''" Failed mockState]
  by simp

text \<open>
  Claim C9: a query of white space only behaves exactly as the empty query. The query
  is trimmed before it is tested for emptiness, so no record is filtered out, the memo
  returns what it returns for the empty query (all records in their original order
  under the filter \<open>all\<close> and the sort \<open>relevance\<close>), \<open>performSearch\<close> issues no
  request and the debounce effect starts no timer.
\<close>

theorem blank_query_as_empty:
  assumes "list_all isWhiteSpace q"
  shows "trim q = [] \<and>
   searchFilter q exps = exps \<and>
   filteredAndSortedExperiments lc exps q f s = filteredAndSortedExperiments lc exps [] f s \<and>
   filteredAndSortedExperiments lc exps q ''all'' ''relevance'' = exps \<and>
   performSearch q r st = performSearch [] r st \<and>
   requests (performSearch q r st) = requests st \<and>
   searchTimeout (debouncedSearchEffect (st\<lparr>searchTerm := q\<rparr>)) = None"
  using trim_blank [OF assms]
  by (simp add: searchFilter_def trim_Nil filteredAndSortedExperiments_def categoryFilter_def
      compareBy_relevance sortArray_zero performSearch_def debouncedSearchEffect_def)

theorem blank_query_as_empty_witness:
  "filteredAndSortedExperiments codeUnitCompare mockExperiments ''   '' ''all'' ''relevance''
     = mockExperiments \<and>
   requests (performSearch ''   '' Failed mockState) = requests mockState \<and>
   searchTimeout (debouncedSearchEffect (mockState\<lparr>searchTerm := ''   ''\<rparr>)) = None"
proof -
  have 1: "list_all isWhiteSpace ''   ''" by code_simp
  show ?thesis
    using blank_query_as_empty
      [OF 1, of mockExperiments codeUnitCompare "''all''" "''relevance''" Failed mockState]
    by blast
qed

section \<open>Which records a query keeps, and in which order\<close>

text \<open>
  A record that the search predicate rejects is in no result, whatever the filter and
  the sort, once the query is not empty when trimmed.
\<close>

lemma no_match_excluded:
  assumes "trim q \<noteq> []" and "\<not> matchesSearch (toLowerCase q) x"
  shows "x \<notin> set (filteredAndSortedExperiments lc exps q f s)"
proof
  assume "x \<in> set (filteredAndSortedExperiments lc exps q f s)"
  then have "x \<in> set (searchFilter q exps)"
    using set_categoryFilter set_filteredAndSorted by blast
  with assms show False by (simp add: searchFilter_def)
qed

text \<open>
  The specification's tokens against the code's substring test: a query that is not
  empty when trimmed has a token, every token occurs in the lower-cased query, and so
  in every string the query occurs in.
\<close>

lemma isWhiteSpace_toLowerChar: "isWhiteSpace (toLowerChar c) = isWhiteSpace c"
proof -
  let ?n = "of_char c :: nat"
  have b: "?n < 256" by simp
  have up: "(?n + 32) mod 256 = ?n + 32" if "?n \<le> 222" using that by simp
  show ?thesis
  proof (cases "(65 \<le> ?n \<and> ?n \<le> 90) \<or> (192 \<le> ?n \<and> ?n \<le> 222 \<and> ?n \<noteq> 215)")
    case True
    then have le: "?n \<le> 222" by arith
    have l: "toLowerChar c = char_of (?n + 32)"
      using True by (simp add: toLowerChar_def Let_def)
    have "(of_char (toLowerChar c) :: nat) = ?n + 32"
      unfolding l by (simp add: up [OF le])
    then have "\<not> isWhiteSpace (toLowerChar c)"
      using True unfolding isWhiteSpace_def by auto
    moreover have "\<not> isWhiteSpace c"
      using True unfolding isWhiteSpace_def by auto
    ultimately show ?thesis by simp
  next
    case False
    then have "toLowerChar c = c" unfolding toLowerChar_def Let_def by (simp only: if_False)
    then show ?thesis by simp
  qed
qed

lemma trim_nonblank: "trim s \<noteq> [] \<Longrightarrow> \<exists>c \<in> set s. \<not> isWhiteSpace c"
  using trim_blank [of s] by (auto simp: list_all_iff)

lemma splitTokens_nonempty:
  "acc \<noteq> [] \<or> (\<exists>c \<in> set s. \<not> isWhiteSpace c) \<Longrightarrow> splitTokens acc s \<noteq> []"
  by (induction acc s rule: splitTokens.induct) auto

lemma splitTokens_sub:
  "t \<in> set (splitTokens acc s) \<Longrightarrow> \<exists>u v. rev acc @ s = u @ t @ v"
proof (induction acc s rule: splitTokens.induct)
  case (1 acc)
  then have "t = rev acc" by (auto split: if_splits)
  then have "rev acc @ [] = [] @ t @ []" by simp
  then show ?case by blast
next
  case (2 acc c cs)
  show ?case
  proof (cases "isWhiteSpace c")
    case ws: True
    show ?thesis
    proof (cases "acc = []")
      case True
      with ws 2 obtain u v where "cs = u @ t @ v" by auto
      then have "rev acc @ c # cs = (c # u) @ t @ v" using True by simp
      then show ?thesis by blast
    next
      case False
      with ws 2 consider "t = rev acc" | "t \<in> set (splitTokens [] cs)" by auto
      then show ?thesis
      proof cases
        case 1
        then have "rev acc @ c # cs = [] @ t @ (c # cs)" by simp
        then show ?thesis by blast
      next
        case 2
        with ws False "2.IH"(2) obtain u v where "cs = u @ t @ v" by auto
        then have "rev acc @ c # cs = (rev acc @ c # u) @ t @ v" by simp
        then show ?thesis by blast
      qed
    qed
  next
    case False
    with 2 obtain u v where "rev (c # acc) @ cs = u @ t @ v" by auto
    then have "rev acc @ c # cs = u @ t @ v" by simp
    then show ?thesis by blast
  qed
qed

lemma spec_tokens_nonempty: "trim q \<noteq> [] \<Longrightarrow> spec_tokens q \<noteq> []"
proof -
  assume "trim q \<noteq> []"
  then obtain c where "c \<in> set q" "\<not> isWhiteSpace c" using trim_nonblank by blast
  then have "\<exists>d \<in> set (toLowerCase q). \<not> isWhiteSpace d"
    by (auto simp: toLowerCase_def isWhiteSpace_toLowerChar)
  then show ?thesis unfolding spec_tokens_def by (simp add: splitTokens_nonempty)
qed

lemma token_in_query: "t \<in> set (spec_tokens q) \<Longrightarrow> includesStr (toLowerCase q) t"
  using splitTokens_sub [of t "[]" "toLowerCase q"]
  by (simp add: spec_tokens_def includesStr_iff)

lemma includesStr_trans: "includesStr a b \<Longrightarrow> includesStr b c \<Longrightarrow> includesStr a c"
proof -
  assume ab: "includesStr a b" and bc: "includesStr b c"
  from ab obtain u v where a: "a = u @ b @ v" unfolding includesStr_iff by (elim exE)
  from bc obtain u' v' where b: "b = u' @ c @ v'" unfolding includesStr_iff by (elim exE)
  have "a = (u @ u') @ c @ (v' @ v)" unfolding a b by simp
  then have "\<exists>p s. a = p @ c @ s" by (intro exI)
  then show ?thesis unfolding includesStr_iff .
qed

lemma zero_containment:
  assumes "spec_tokens q \<noteq> []" and "spec_lexicalContainment q x = 0"
    and "t \<in> set (spec_tokens q)"
  shows "\<not> spec_tokenOccurs x t"
proof -
  let ?ts = "spec_tokens q"
  have "(of_nat (length (filter (spec_tokenOccurs x) ?ts)) :: rat) / of_nat (length ?ts) = 0"
    using assms(1,2) by (simp add: spec_lexicalContainment_def Let_def)
  moreover have "(of_nat (length ?ts) :: rat) \<noteq> 0" using assms(1) by simp
  ultimately have "filter (spec_tokenOccurs x) ?ts = []" by simp
  with assms(3) show ?thesis by (simp add: filter_empty_conv)
qed

text \<open>
  Claim C3, as the code has it: for every query that is not empty once trimmed and every
  record, if the record has zero lexical containment (no token of the query occurs in
  its title, organism, mission or keywords), zero keyword-salience overlap and zero
  embedding similarity with the query, and its summary does not contain the query
  either, then the record is absent from the result, whatever the filter and the sort.
\<close>

theorem zero_signals_excluded:
  assumes "trim q \<noteq> []"
    and "spec_lexicalContainment q x = 0"
    and "keywordSalience q x = (0::rat)"
    and "embeddingSimilarity q x = (0::rat)"
    and "\<not> includesStr (toLowerCase (summary x)) (toLowerCase q)"
  shows "x \<notin> set (filteredAndSortedExperiments lc exps q f s)"
proof -
  have ne: "spec_tokens q \<noteq> []" using assms(1) by (rule spec_tokens_nonempty)
  then obtain t where t: "t \<in> set (spec_tokens q)" by (cases "spec_tokens q") auto
  have tq: "includesStr (toLowerCase q) t" using t by (rule token_in_query)
  have no: "\<not> spec_tokenOccurs x t" using ne assms(2) t by (rule zero_containment)
  have "\<not> matchesSearch (toLowerCase q) x"
  proof
    assume "matchesSearch (toLowerCase q) x"
    with assms(5) obtain fld where
      fld: "fld \<in> set (title x # organism x # mission x # expKeywords x)"
      and inc: "includesStr (toLowerCase fld) (toLowerCase q)"
      by (auto simp: matchesSearch_def some_iff)
    from inc tq have "includesStr (toLowerCase fld) t" by (rule includesStr_trans)
    with fld have "spec_tokenOccurs x t"
      unfolding spec_tokenOccurs_def some_iff by blast
    with no show False ..
  qed
  with assms(1) show ?thesis by (rule no_match_excluded)
qed

theorem zero_signals_excluded_witness:
  "plainRecord \<notin> set (filteredAndSortedExperiments codeUnitCompare [plainRecord, glds21]
                        ''microgravity'' ''all'' ''relevance'')"
proof -
  have 1: "trim ''microgravity'' \<noteq> []" by code_simp
  have 2: "spec_lexicalContainment ''microgravity'' plainRecord = 0" by code_simp
  have 3: "noSalience ''microgravity'' plainRecord = 0" by (simp add: noSalience_def)
  have 4: "noSimilarity ''microgravity'' plainRecord = 0" by (simp add: noSimilarity_def)
  have 5: "\<not> includesStr (toLowerCase (summary plainRecord)) (toLowerCase ''microgravity'')"
    by code_simp
  show ?thesis using zero_signals_excluded
      [where keywordSalience = noSalience and embeddingSimilarity = noSimilarity, OF 1 2 3 4 5] by simp
qed

text \<open>
  As the claim is worded, with the three signals alone, it fails: no token of the query
  \<open>adaptations\<close> occurs in the title, organism, mission or keywords of GLDS-104, and
  with an index that gives it no salient keyword and no similarity all three signals
  are zero; the record is returned all the same, because its summary contains the
  query.
\<close>

theorem summary_only_match_counterexample:
  "''adaptations'' \<noteq> [] \<and>
   spec_lexicalContainment ''adaptations'' glds104 = 0 \<and>
   noSalience ''adaptations'' glds104 = 0 \<and>
   noSimilarity ''adaptations'' glds104 = 0 \<and>
   glds104 \<in> set (filteredAndSortedExperiments codeUnitCompare mockExperiments
                    ''adaptations'' ''all'' ''relevance'')"
  by code_simp

text \<open>
  Claim C2, as the code has it: for every query that is not empty once trimmed, the
  sort \<open>relevance\<close> computes no score and moves nothing: the result is the records
  that contain the query and pass the category filter, in their original insertion
  order.
\<close>

theorem relevance_keeps_insertion_order:
  assumes "trim q \<noteq> []"
  shows "filteredAndSortedExperiments lc exps q f ''relevance'' =
           categoryFilter f (filter (matchesSearch (toLowerCase q)) exps) \<and>
         subseq (filteredAndSortedExperiments lc exps q f ''relevance'') exps"
proof -
  have eq: "filteredAndSortedExperiments lc exps q f ''relevance'' =
           categoryFilter f (filter (matchesSearch (toLowerCase q)) exps)"
    using assms
    by (simp add: filteredAndSortedExperiments_def compareBy_relevance sortArray_zero
        searchFilter_def)
  have "subseq (categoryFilter f (filter (matchesSearch (toLowerCase q)) exps))
          (filter (matchesSearch (toLowerCase q)) exps)"
    by (rule subseq_categoryFilter)
  moreover have "subseq (filter (matchesSearch (toLowerCase q)) exps) exps"
    by simp
  ultimately have "subseq (categoryFilter f (filter (matchesSearch (toLowerCase q)) exps)) exps"
    by (rule subseq_order.trans)
  with eq show ?thesis by simp
qed

theorem relevance_keeps_insertion_order_witness:
  "filteredAndSortedExperiments codeUnitCompare [recordA, recordB] ''microgravity'' ''all''
     ''relevance'' = [recordA, recordB]"
proof -
  have 1: "trim ''microgravity'' \<noteq> []" by code_simp
  have 2: "categoryFilter ''all''
             (filter (matchesSearch (toLowerCase ''microgravity'')) [recordA, recordB])
           = [recordA, recordB]"
    by code_simp
  show ?thesis
    using relevance_keeps_insertion_order
      [OF 1, of codeUnitCompare "[recordA, recordB]" "''all''"] 2
    by simp
qed

text \<open>
  As the claim is worded, ordered by descending score with insertion order only for
  ties, it fails: with an index that puts record B nearer to the query than record A,
  both score above zero and B scores higher, and the result is still A before B.
\<close>

theorem ranked_by_score_counterexample:
  "filteredAndSortedExperiments codeUnitCompare [recordA, recordB] ''microgravity'' ''all''
     ''relevance'' = [recordA, recordB] \<and>
   0 < spec_relevanceScore noSalience nearerB ''microgravity'' recordA \<and>
   spec_relevanceScore noSalience nearerB ''microgravity'' recordA
     < spec_relevanceScore noSalience nearerB ''microgravity'' recordB \<and>
   \<not> spec_rankedByScore (spec_relevanceScore noSalience nearerB ''microgravity'')
       (filteredAndSortedExperiments codeUnitCompare [recordA, recordB] ''microgravity''
          ''all'' ''relevance'')"
  by code_simp

text \<open>
  Claim C5, as the code has it: for every query that is not empty once trimmed, a record
  is kept exactly when the whole query, in lower case and not split into tokens, occurs
  in the lower-cased title, organism, summary, mission or one of the keywords; the id
  and the publication count do not contribute.
\<close>

theorem lexical_fields:
  assumes "trim q \<noteq> []"
  shows "(x \<in> set (searchFilter q exps) \<longleftrightarrow>
           x \<in> set exps \<and>
           (includesStr (toLowerCase (title x)) (toLowerCase q) \<or>
            includesStr (toLowerCase (organism x)) (toLowerCase q) \<or>
            includesStr (toLowerCase (summary x)) (toLowerCase q) \<or>
            includesStr (toLowerCase (mission x)) (toLowerCase q) \<or>
            (\<exists>k \<in> set (expKeywords x). includesStr (toLowerCase k) (toLowerCase q)))) \<and>
         matchesSearch t (x\<lparr>expId := i, publicationCount := n\<rparr>) = matchesSearch t x"
  using assms by (auto simp: searchFilter_def matchesSearch_def some_iff)

theorem lexical_fields_witness:
  "glds104 \<in> set (searchFilter ''Adaptations'' mockExperiments)"
proof -
  have 1: "trim ''Adaptations'' \<noteq> []" by code_simp
  have 2: "glds104 \<in> set mockExperiments" by (simp add: mockExperiments_def)
  have 3: "includesStr (toLowerCase (summary glds104)) (toLowerCase ''Adaptations'')"
    by code_simp
  show ?thesis using lexical_fields [OF 1, of glds104 mockExperiments] 2 3 by blast
qed

text \<open>
  As the claim is worded, with the summary contributing nothing, it fails: two records
  that agree on title, organism, mission and keywords and differ in the summary alone
  are told apart by the query \<open>adaptations\<close>.
\<close>

theorem summary_contributes_counterexample:
  "title (glds104\<lparr>summary := []\<rparr>) = title glds104 \<and>
   organism (glds104\<lparr>summary := []\<rparr>) = organism glds104 \<and>
   mission (glds104\<lparr>summary := []\<rparr>) = mission glds104 \<and>
   expKeywords (glds104\<lparr>summary := []\<rparr>) = expKeywords glds104 \<and>
   filteredAndSortedExperiments codeUnitCompare [glds104] ''adaptations'' ''all''
     ''relevance'' = [glds104] \<and>
   filteredAndSortedExperiments codeUnitCompare [glds104\<lparr>summary := []\<rparr>] ''adaptations''
     ''all'' ''relevance'' = []"
  by code_simp

section \<open>Related experiments\<close>

text \<open>
  Claim C4, as the code has it: the "Related Experiments" button searches for the
  experiment's first keyword, or for the part of its organism before the first space
  when it has no keyword. Apart from the queried experiment itself, the records listed
  are exactly those of the ordinary search for that term under the current filter and
  sort, in the same order. There is no k and no similarity index.
\<close>

theorem related_is_keyword_search:
  "query (relatedSearchEvent e) =
     (case expKeywords e of k # ks \<Rightarrow> k | [] \<Rightarrow> firstPart (organism e)) \<and>
   withoutId (expId e) (relatedExperiments lc st e) =
     withoutId (expId e)
       (filteredAndSortedExperiments lc (allExperiments st) (query (relatedSearchEvent e))
          (filterBy st) (sortBy st))"
  by (simp add: relatedExperiments_def visibleExperiments_def
      handleRelatedExperimentsSearch_def addToast_def relatedSearchEvent_def)

theorem related_is_keyword_search_witness:
  "withoutId (expId glds21) (relatedExperiments codeUnitCompare mockState glds21) =
     withoutId (expId glds21)
       (filteredAndSortedExperiments codeUnitCompare mockExperiments ''microgravity''
          ''all'' ''relevance'')"
proof -
  have q: "query (relatedSearchEvent glds21) = ''microgravity''" by code_simp
  have st: "allExperiments mockState = mockExperiments \<and> filterBy mockState = ''all'' \<and>
            sortBy mockState = ''relevance''"
    by (simp add: mockState_def initialState_def)
  from related_is_keyword_search [of glds21 codeUnitCompare mockState]
  have "withoutId (expId glds21) (relatedExperiments codeUnitCompare mockState glds21) =
     withoutId (expId glds21)
       (filteredAndSortedExperiments codeUnitCompare (allExperiments mockState)
          (query (relatedSearchEvent glds21)) (filterBy mockState) (sortBy mockState))"
    by blast
  then show ?thesis unfolding q using st by simp
qed

text \<open>
  As the claim is worded, the top k nearest records, it fails: for GLDS-21 over the mock
  records and k = 1 the list holds two records besides GLDS-21, every record that
  contains the word microgravity.
\<close>

theorem related_counterexample:
  "withoutId (expId glds21) (relatedExperiments codeUnitCompare mockState glds21)
     = [glds47, glds78] \<and>
   \<not> length (withoutId (expId glds21) (relatedExperiments codeUnitCompare mockState glds21))
       \<le> 1"
  by code_simp

section \<open>The payload of the knowledge graph\<close>

text \<open>
  Claim C6, as the code has it: the payload the client builds when the request for the
  graph fails gives each node as an object whose only field is \<open>data\<close>, holding an
  object with exactly the fields id, label and type, and each edge as an object whose
  only field is \<open>data\<close>, holding exactly source, target and label; a payload that
  the backend answers is handed on as received.
\<close>

theorem mock_payload_shape:
  "loadGraphData None = mockGraphData \<and>
   loadGraphData (Some d) = d \<and>
   list_all (wrapsFields [''id'', ''label'', ''type''])
     (elements ''nodes'' (loadGraphData None)) \<and>
   list_all (wrapsFields [''source'', ''target'', ''label''])
     (elements ''edges'' (loadGraphData None)) \<and>
   length (elements ''nodes'' (loadGraphData None)) = 5 \<and>
   length (elements ''edges'' (loadGraphData None)) = 4"
  by (simp add: loadGraphData_def mockGraphData_def elements_def field_def wrapsFields_def
      fieldNames_def mockNode_def mockEdge_def)

theorem mock_payload_shape_witness:
  "loadGraphData (Some (JObject [])) = JObject [] \<and>
   length (elements ''nodes'' (loadGraphData None)) = 5"
  using mock_payload_shape [of "JObject []"] by blast

text \<open>
  As the claim is worded, id, label and type being fields of the node itself, it fails:
  the field names of every node and of every edge of the fallback payload are just
  \<open>data\<close>.
\<close>

theorem node_fields_counterexample:
  "map fieldNames (elements ''nodes'' (loadGraphData None)) =
     [[''data''], [''data''], [''data''], [''data''], [''data'']] \<and>
   map fieldNames (elements ''edges'' (loadGraphData None)) =
     [[''data''], [''data''], [''data''], [''data'']] \<and>
   [''data''] \<noteq> [''id'', ''label'', ''type''] \<and>
   [''data''] \<noteq> [''source'', ''target'', ''label'']"
  by code_simp

section \<open>The suggestions of the search bar\<close>

text \<open>
  Claim C10: the suggestion list is empty when the term has length at most 1; in every
  case it has at most 4 entries, each one of the quick searches, each containing the
  term when both are in lower case, and none equal to the term in lower case.
\<close>

theorem suggestions_bounded:
  "(length q \<le> 1 \<longrightarrow> suggestions q = []) \<and>
   length (suggestions q) \<le> 4 \<and>
   (\<forall>s \<in> set (suggestions q).
      s \<in> set quickSearches \<and> includesStr (toLowerCase s) (toLowerCase q) \<and>
      toLowerCase s \<noteq> toLowerCase q)"
  by (auto simp: suggestions_def dest!: in_set_takeD)

theorem suggestions_bounded_witness:
  "suggestions ''a'' = [] \<and>
   length (suggestions ''Ar'') \<le> 4 \<and>
   ''arabidopsis'' \<in> set quickSearches \<and>
   includesStr (toLowerCase ''arabidopsis'') (toLowerCase ''Ar'') \<and>
   toLowerCase ''arabidopsis'' \<noteq> toLowerCase ''Ar''"
proof -
  have 1: "length ''a'' \<le> 1" by simp
  have 2: "''arabidopsis'' \<in> set (suggestions ''Ar'')" by code_simp
  from suggestions_bounded [of "''a''"] 1 have "suggestions ''a'' = []" by blast
  moreover from suggestions_bounded [of "''Ar''"] 2
  have "length (suggestions ''Ar'') \<le> 4 \<and>
        ''arabidopsis'' \<in> set quickSearches \<and>
        includesStr (toLowerCase ''arabidopsis'') (toLowerCase ''Ar'') \<and>
        toLowerCase ''arabidopsis'' \<noteq> toLowerCase ''Ar''"
    by blast
  ultimately show ?thesis by blast
qed

lemma suggestions_examples:
  "suggestions ''Ar'' = [''arabidopsis'', ''cardiac function''] \<and>
   suggestions ''is'' = [''arabidopsis'', ''ISS''] \<and>
   suggestions ''iss'' = [] \<and>
   suggestions ''i'' = []"
  by code_simp

section \<open>The loaded collection is read only\<close>

text \<open>
  Whatever the term, the filter and the sort, the memo leaves a store that extends the
  old one, and the array it returns is one of the new ones and holds the value of
  \<open>filteredAndSortedExperiments\<close>.
\<close>

lemma store_run:
  assumes "coll < length h"
  shows "\<exists>r ext. filteredAndSortedExperiments_store lc h coll q f s =
                    (r, h @ ext) \<and> length h \<le> r \<and> r < length h + length ext \<and>
                    (h @ ext) ! r = filteredAndSortedExperiments lc (h ! coll) q f s"
proof -
  let ?m = "filter (matchesSearch (toLowerCase q)) (h ! coll)"
  let ?cmp = "compareBy lc s"
  consider (a) "trim q \<noteq> []" "f \<noteq> ''all''" | (b) "trim q \<noteq> []" "f = ''all''"
    | (c) "trim q = []" "f \<noteq> ''all''" | (d) "trim q = []" "f = ''all''" by blast
  then show ?thesis
  proof cases
    case a
    let ?c = "filter (matchesCategory f) ?m"
    have "filteredAndSortedExperiments_store lc h coll q f s =
            (Suc (Suc (length h)), h @ [?m, ?c, sortArray ?cmp ?c])"
      using a by (simp add: filteredAndSortedExperiments_store_def alloc_def sortInPlace_def
          nth_append list_update_append)
    moreover have "(h @ [?m, ?c, sortArray ?cmp ?c]) ! Suc (Suc (length h)) =
        filteredAndSortedExperiments lc (h ! coll) q f s"
      using a by (simp add: nth_append filteredAndSortedExperiments_def searchFilter_def
          categoryFilter_def)
    ultimately show ?thesis by (intro exI[of _ "Suc (Suc (length h))"] exI[of _ "[?m, ?c, sortArray ?cmp ?c]"]) simp
  next
    case b
    have "filteredAndSortedExperiments_store lc h coll q f s =
            (Suc (length h), h @ [?m, sortArray ?cmp ?m])"
      using b by (simp add: filteredAndSortedExperiments_store_def alloc_def sortInPlace_def
          nth_append list_update_append)
    moreover have "(h @ [?m, sortArray ?cmp ?m]) ! Suc (length h) =
        filteredAndSortedExperiments lc (h ! coll) q f s"
      using b by (simp add: nth_append filteredAndSortedExperiments_def searchFilter_def
          categoryFilter_def)
    ultimately show ?thesis by (intro exI[of _ "Suc (length h)"] exI[of _ "[?m, sortArray ?cmp ?m]"]) simp
  next
    case c
    let ?c = "filter (matchesCategory f) (h ! coll)"
    have "filteredAndSortedExperiments_store lc h coll q f s =
            (Suc (length h), h @ [?c, sortArray ?cmp ?c])"
      using c assms by (simp add: filteredAndSortedExperiments_store_def alloc_def sortInPlace_def
          nth_append list_update_append)
    moreover have "(h @ [?c, sortArray ?cmp ?c]) ! Suc (length h) =
        filteredAndSortedExperiments lc (h ! coll) q f s"
      using c by (simp add: nth_append filteredAndSortedExperiments_def searchFilter_def
          categoryFilter_def)
    ultimately show ?thesis by (intro exI[of _ "Suc (length h)"] exI[of _ "[?c, sortArray ?cmp ?c]"]) simp
  next
    case d
    have "filteredAndSortedExperiments_store lc h coll q f s =
            (length h, h @ [sortArray ?cmp (h ! coll)])"
      using d assms by (simp add: filteredAndSortedExperiments_store_def alloc_def sortInPlace_def
          nth_append list_update_append)
    moreover have "(h @ [sortArray ?cmp (h ! coll)]) ! length h =
        filteredAndSortedExperiments lc (h ! coll) q f s"
      using d by (simp add: nth_append filteredAndSortedExperiments_def searchFilter_def
          categoryFilter_def)
    ultimately show ?thesis by (intro exI[of _ "length h"] exI[of _ "[sortArray ?cmp (h ! coll)]"]) simp
  qed
qed

lemma handlers_frame:
  "allExperiments (handleSearchChange t st) = allExperiments st \<and>
   allExperiments (performSearch t r st) = allExperiments st \<and>
   allExperiments (debouncedSearchEffect st) = allExperiments st \<and>
   allExperiments (handleRelatedExperimentsSearch ev st) = allExperiments st"
  by (simp add: handleSearchChange_def performSearch_def debouncedSearchEffect_def
      handleRelatedExperimentsSearch_def addToast_def Let_def split: SearchResponse.split)

text \<open>
  Claim C7: searching, filtering and sorting leave the loaded collection unchanged. The
  memo writes to no array that existed before it ran, the collection included: what it
  returns is a fresh array, and the in-place sort works on that copy. The handlers of
  the search leave \<open>allExperiments\<close> as it is.
\<close>

theorem collection_not_mutated:
  assumes "coll < length h"
    and "filteredAndSortedExperiments_store lc h coll q f s = (r, h')"
  shows "take (length h) h' = h \<and> h' ! coll = h ! coll \<and>
         length h \<le> r \<and> r < length h' \<and> r \<noteq> coll \<and>
         h' ! r = filteredAndSortedExperiments lc (h ! coll) q f s \<and>
         set (h' ! r) \<subseteq> set (h ! coll) \<and>
         allExperiments (handleSearchChange t st) = allExperiments st \<and>
         allExperiments (performSearch t rsp st) = allExperiments st \<and>
         allExperiments (debouncedSearchEffect st) = allExperiments st \<and>
         allExperiments (handleRelatedExperimentsSearch ev st) = allExperiments st"
proof -
  from store_run [OF assms(1), of lc q f s] assms(2)
  obtain ext where h': "h' = h @ ext" and r: "length h \<le> r" "r < length h + length ext"
    and res: "(h @ ext) ! r = filteredAndSortedExperiments lc (h ! coll) q f s"
    by auto
  have "take (length h) h' = h" using h' by simp
  moreover have "h' ! coll = h ! coll" using h' assms(1) by (simp add: nth_append)
  moreover have "r < length h'" using h' r by simp
  moreover have "r \<noteq> coll" using r assms(1) by simp
  moreover have val: "h' ! r = filteredAndSortedExperiments lc (h ! coll) q f s"
    using h' res by simp
  moreover have "set (h' ! r) \<subseteq> set (h ! coll)"
  proof -
    have "set (h' ! r) = set (categoryFilter f (searchFilter q (h ! coll)))"
      using val by (simp add: set_filteredAndSorted)
    also have "\<dots> \<subseteq> set (searchFilter q (h ! coll))"
      by (rule set_categoryFilter)
    also have "\<dots> \<subseteq> set (h ! coll)"
      by (auto simp: searchFilter_def)
    finally show ?thesis .
  qed
  ultimately show ?thesis using r(1) handlers_frame by simp
qed

theorem collection_not_mutated_witness:
  "filteredAndSortedExperiments_store codeUnitCompare [mockExperiments] 0 [] ''all''
     ''publications'' = (1, [mockExperiments, [glds104, glds21, glds47, glds78]]) \<and>
   [mockExperiments, [glds104, glds21, glds47, glds78]] ! 0 = [mockExperiments] ! 0 \<and>
   take (length [mockExperiments]) [mockExperiments, [glds104, glds21, glds47, glds78]]
     = [mockExperiments]"
proof -
  have run: "filteredAndSortedExperiments_store codeUnitCompare [mockExperiments] 0 []
      ''all'' ''publications'' = (1, [mockExperiments, [glds104, glds21, glds47, glds78]])"
    by code_simp
  have 1: "(0::nat) < length [mockExperiments]" by simp
  from collection_not_mutated [OF 1 run]
  have "[mockExperiments, [glds104, glds21, glds47, glds78]] ! 0 = [mockExperiments] ! 0 \<and>
        take (length [mockExperiments]) [mockExperiments, [glds104, glds21, glds47, glds78]]
          = [mockExperiments]"
    by blast
  with run show ?thesis by blast
qed

section \<open>The order of the records does not matter to the graph\<close>

text \<open>
  Merging two entities, or two relations, gives the same map in either order, so two
  records can be added in either order.
\<close>

lemma mergeEntity_commute:
  "mergeEntity a (mergeEntity b m) = mergeEntity b (mergeEntity a m)"
  by (auto simp: mergeEntity_def fun_eq_iff split: option.splits)

lemma mergeRelation_commute:
  "mergeRelation i a (mergeRelation j b m) = mergeRelation j b (mergeRelation i a m)"
  by (auto simp: mergeRelation_def fun_eq_iff insert_commute split: option.splits)

lemma step_past_fold:
  assumes "\<And>y m. f (g y m) = g y (f m)"
  shows "f (fold g ys m) = fold g ys (f m)"
  by (induction ys arbitrary: m) (simp_all add: assms)

lemma folds_commute:
  assumes "\<And>x y m. f x (g y m) = g y (f x m)"
  shows "fold f xs (fold g ys m) = fold g ys (fold f xs m)"
proof (induction xs arbitrary: m)
  case Nil
  show ?case by simp
next
  case (Cons x xs)
  have "fold f (x # xs) (fold g ys m) = fold f xs (f x (fold g ys m))" by simp
  also have "f x (fold g ys m) = fold g ys (f x m)"
    by (rule step_past_fold) (rule assms)
  also have "fold f xs (fold g ys (f x m)) = fold g ys (fold f xs (f x m))"
    by (rule Cons.IH)
  finally show ?case by simp
qed

lemma addRecord_commute:
  "addRecord en re r1 (addRecord en re r2 g) = addRecord en re r2 (addRecord en re r1 g)"
proof -
  have n: "fold mergeEntity (remdups (en r1)) (fold mergeEntity (remdups (en r2)) (nodes g)) =
           fold mergeEntity (remdups (en r2)) (fold mergeEntity (remdups (en r1)) (nodes g))"
    by (rule folds_commute) (rule mergeEntity_commute)
  have e: "fold (mergeRelation (expId r1)) (remdups (re r1))
             (fold (mergeRelation (expId r2)) (remdups (re r2)) (edges g)) =
           fold (mergeRelation (expId r2)) (remdups (re r2))
             (fold (mergeRelation (expId r1)) (remdups (re r1)) (edges g))"
    by (rule folds_commute) (rule mergeRelation_commute)
  show ?thesis by (simp add: addRecord_def n e)
qed

lemma fold_addRecord_perm:
  assumes "mset xs = mset ys"
  shows "fold (addRecord en re) xs g = fold (addRecord en re) ys g"
proof -
  have "fold (addRecord en re) xs = fold (addRecord en re) ys"
    by (rule fold_multiset_equiv) (simp_all add: assms fun_eq_iff addRecord_commute)
  then show ?thesis by simp
qed

text \<open>
  Claim C8: building the graph over any permutation of a record collection gives the
  same graph: the same nodes with the same usage counters, the same edges with the same
  provenance and the same weights, and the same failure when no record is well formed.
  In particular the reversed collection builds the same graph.
\<close>

theorem build_order_independent:
  assumes "mset records = mset records'"
  shows "build en re records = build en re records' \<and>
         build en re (rev records) = build en re records"
proof -
  have perm: "build en re xs = build en re ys" if p: "mset xs = mset ys" for xs ys
  proof -
    have m: "mset (filter wellFormed xs) = mset (filter wellFormed ys)"
      using p by simp
    then have "filter wellFormed xs = [] \<longleftrightarrow> filter wellFormed ys = []"
      by (metis mset_zero_iff)
    moreover have "fold (addRecord en re) (filter wellFormed xs) emptyGraph =
        fold (addRecord en re) (filter wellFormed ys) emptyGraph"
      using m by (rule fold_addRecord_perm)
    ultimately show ?thesis by (simp add: build_def Let_def)
  qed
  have "build en re records = build en re records'" using assms by (rule perm)
  moreover have "build en re (rev records) = build en re records"
    by (rule perm) simp
  ultimately show ?thesis ..
qed

theorem build_order_independent_witness:
  "build conditionsOf affectsOf [glds47, glds21] = build conditionsOf affectsOf [glds21, glds47]"
proof -
  have 1: "mset [glds47, glds21] = mset [glds21, glds47]" by simp
  show ?thesis using build_order_independent [OF 1] by blast
qed

text \<open>The graph of the first two mock records, at some of its nodes and edges.\<close>

lemma build_example:
  "(case build conditionsOf affectsOf [glds21, glds47] of
      None \<Rightarrow> False
    | Some g \<Rightarrow>
        nodes g (Condition, ''microgravity'') = Some 2 \<and>
        nodes g (Organism, ''mus musculus'') = Some 1 \<and>
        nodes g (Process, ''gene expression'') = None \<and>
        edges g ((Condition, ''microgravity''), (Organism, ''mus musculus''), ''affects'')
          = Some ({''GLDS-47''}, 1))"
  by code_simp

end
